theory Spec2Isabelle
  imports Main "HOL-Library.Multiset" "HOL-Library.Char_ord" "HOL-Library.List_Lexorder"
begin

section \<open>JavaScript values read by PipelineExplorer.ts\<close>

text \<open>
  The raw pipeline activity is typed \<^verbatim>\<open>any\<close> in the source. It is modelled as records of
  exactly the fields the code reads. A field of string type is a \<open>string option\<close>:
  \<open>None\<close> is \<^verbatim>\<open>undefined\<close> (the field is absent). A sub-record is an option as well; an
  object that is present is always truthy in JavaScript, also when it has no fields.
  A string is truthy when it is present and not empty.
\<close>

definition truthy :: "string option \<Rightarrow> bool" where
  "truthy v = (case v of None \<Rightarrow> False | Some s \<Rightarrow> s \<noteq> [])"

text \<open>String concatenation with a value that may be \<^verbatim>\<open>undefined\<close>.\<close>

definition toStr :: "string option \<Rightarrow> string" where
  "toStr v = (case v of None \<Rightarrow> ''undefined'' | Some s \<Rightarrow> s)"

text \<open>\<^verbatim>\<open>v || ""\<close> for a string-valued field.\<close>

definition orEmpty :: "string option \<Rightarrow> string" where
  "orEmpty v = (if truthy v then the v else [])"

record GitStatus =
  status_url :: "string option"

record UpdateStep =
  update_statuses :: "GitStatus list option"
  update_status :: "string option"

record PullRequestStep =
  pr_pullRequestURL :: "string option"
  pr_status :: "string option"
  pr_startedTimestamp :: "string option"
  pr_completedTimestamp :: "string option"

record PromoteStep =
  promote_environment :: "string option"
  promote_applicationURL :: "string option"
  promote_pullRequest :: "PullRequestStep option"
  promote_update :: "UpdateStep option"
  promote_status :: "string option"
  promote_startedTimestamp :: "string option"
  promote_completedTimestamp :: "string option"

record CoreStep =
  stage_name :: "string option"
  stage_status :: "string option"
  stage_startedTimestamp :: "string option"
  stage_completedTimestamp :: "string option"

record Step =
  step_stage :: "CoreStep option"
  step_promote :: "PromoteStep option"

text \<open>An entry of \<^verbatim>\<open>spec.steps\<close> may be \<^verbatim>\<open>null\<close>: the loop tests \<^verbatim>\<open>if (step)\<close>.\<close>

record Spec =
  spec_build :: "string option"
  spec_gitOwner :: "string option"
  spec_gitRepository :: "string option"
  spec_pipeline :: "string option"
  spec_status :: "string option"
  spec_steps :: "Step option list option"
  spec_startedTimestamp :: "string option"
  spec_completedTimestamp :: "string option"

record Metadata =
  metadata_name :: "string option"

record PipelineActivity =
  metadata :: "Metadata option"
  spec :: "Spec option"

text \<open>The empty object literal \<^verbatim>\<open>{}\<close> read as a spec: every field is absent.\<close>

definition emptySpec :: Spec where
  "emptySpec = \<lparr> spec_build = None, spec_gitOwner = None, spec_gitRepository = None,
     spec_pipeline = None, spec_status = None, spec_steps = None,
     spec_startedTimestamp = None, spec_completedTimestamp = None \<rparr>"

datatype error = TypeError

section \<open>Resources\<close>

text \<open>
  A \<^verbatim>\<open>vscode.Uri\<close>: \<^verbatim>\<open>Uri.parse("pipeline:localhost")\<close> has the scheme \<^verbatim>\<open>pipeline\<close> and
  the path \<^verbatim>\<open>localhost\<close>; \<^verbatim>\<open>uri.with({path: p})\<close> replaces the path only.
\<close>

record Uri =
  uri_scheme :: string
  uri_path :: string

definition addChildUrl :: "Uri \<Rightarrow> string \<Rightarrow> Uri" where
  "addChildUrl uri p = uri\<lparr> uri_path := uri_path uri @ ''/'' @ p \<rparr>"

section \<open>String helpers\<close>

text \<open>\<^verbatim>\<open>toUpperCase\<close> on one character, for the ASCII letters.\<close>

definition toUpperCase_char :: "char \<Rightarrow> char" where
  "toUpperCase_char c =
     (if CHR ''a'' \<le> c \<and> c \<le> CHR ''z'' then char_of (of_char c - (32::nat)) else c)"

definition stringCapitalise :: "string option \<Rightarrow> string" where
  "stringCapitalise text =
     (if truthy text then map toUpperCase_char (take 1 (the text)) @ drop 1 (the text)
      else [])"

text \<open>\<^verbatim>\<open>s.lastIndexOf(c)\<close>: the index of the last occurrence, or \<open>-1\<close>.\<close>

fun lastIndexOf :: "string \<Rightarrow> char \<Rightarrow> int" where
  "lastIndexOf [] c = -1"
| "lastIndexOf (x # xs) c =
     (let r = lastIndexOf xs c in
      if 0 \<le> r then r + 1 else if x = c then 0 else -1)"

text \<open>\<^verbatim>\<open>s.substring(i)\<close> for \<open>i \<ge> 0\<close>.\<close>

definition substring_from :: "string \<Rightarrow> int \<Rightarrow> string" where
  "substring_from s i = drop (nat i) s"

text \<open>\<^verbatim>\<open>s.split(c)\<close>: the segments between the separators, empty ones included.\<close>

fun split_acc :: "char \<Rightarrow> string \<Rightarrow> string \<Rightarrow> string list" where
  "split_acc c cur [] = [rev cur]"
| "split_acc c cur (x # xs) =
     (if x = c then rev cur # split_acc c [] xs else split_acc c (x # cur) xs)"

definition split :: "string \<Rightarrow> char \<Rightarrow> string list" where
  "split s c = split_acc c [] s"

section \<open>The nodes of the tree\<close>

text \<open>
  The tree is strict: every node is held by exactly one parent map or list, so the
  parent references of the source (\<^verbatim>\<open>build\<close>, \<^verbatim>\<open>repo\<close>, \<^verbatim>\<open>owner\<close>, \<^verbatim>\<open>model\<close>) are
  given by the position in the tree and are not fields here. A mutation of a node
  in place is the replacement of the node in its parent's map.
\<close>

datatype StepPayload =
    StagePayload CoreStep
  | PromotePayload PromoteStep
  | PullRequestPayload PullRequestStep
  | UpdatePayload UpdateStep
  | UndefinedPayload

record StageNode =
  stage_resource :: Uri
  name :: "string option"
  stage_pipeline :: "PipelineActivity option"
  step :: StepPayload
  contextValue :: string
  url :: "string option"

record BuildNode =
  build_resource :: Uri
  buildNumber :: string
  pipeline :: "PipelineActivity option"
  children :: "StageNode list"

text \<open>
  A JavaScript \<^verbatim>\<open>Map\<close> keeps its entries in insertion order: \<^verbatim>\<open>set\<close> on a key that is
  present replaces the value in place, on a new key it appends; \<^verbatim>\<open>forEach\<close> visits the
  entries in that order.
\<close>

type_synonym ('k, 'v) jsmap = "('k \<times> 'v) list"

fun jsmap_get :: "('k, 'v) jsmap \<Rightarrow> 'k \<Rightarrow> 'v option" where
  "jsmap_get [] k = None"
| "jsmap_get ((k', v) # m) k = (if k' = k then Some v else jsmap_get m k)"

fun jsmap_set :: "('k, 'v) jsmap \<Rightarrow> 'k \<Rightarrow> 'v \<Rightarrow> ('k, 'v) jsmap" where
  "jsmap_set [] k v = [(k, v)]"
| "jsmap_set ((k', v') # m) k v =
     (if k' = k then (k, v) # m else (k', v') # jsmap_set m k v)"

fun jsmap_delete :: "('k, 'v) jsmap \<Rightarrow> 'k \<Rightarrow> ('k, 'v) jsmap" where
  "jsmap_delete [] k = []"
| "jsmap_delete ((k', v') # m) k =
     (if k' = k then m else (k', v') # jsmap_delete m k)"

definition jsmap_size :: "('k, 'v) jsmap \<Rightarrow> nat" where
  "jsmap_size m = length m"

record RepoNode =
  repo_resource :: Uri
  repoName :: string
  repo_nodes :: "(string, BuildNode) jsmap"

record OwnerNode =
  owner_resource :: Uri
  folder :: string
  owner_nodes :: "(string, RepoNode) jsmap"

record PipelineModel =
  model_nodes :: "(string, OwnerNode) jsmap"
  model_resource :: Uri

definition newPipelineModel :: PipelineModel where
  "newPipelineModel =
     \<lparr> model_nodes = [], model_resource = \<lparr> uri_scheme = ''pipeline'', uri_path = ''localhost'' \<rparr> \<rparr>"

section \<open>BuildNode: the pipeline setter\<close>

definition pipelineSpec :: "BuildNode \<Rightarrow> Spec" where
  "pipelineSpec b =
     (case pipeline b of
        Some p \<Rightarrow> (case spec p of Some s \<Rightarrow> s | None \<Rightarrow> emptySpec)
      | None \<Rightarrow> emptySpec)"

text \<open>
  The loop over \<^verbatim>\<open>update.statuses\<close>: \<open>updateUrl\<close> is assigned each status's url in turn
  and the loop stops at the first truthy one.
\<close>

fun updateUrl_loop :: "string option \<Rightarrow> GitStatus list \<Rightarrow> string option" where
  "updateUrl_loop updateUrl [] = updateUrl"
| "updateUrl_loop updateUrl (status # rest) =
     (if truthy (status_url status) then status_url status
      else updateUrl_loop (status_url status) rest)"

definition pullRequestName :: "string \<Rightarrow> string \<Rightarrow> string" where
  "pullRequestName nm prUrl =
     (if prUrl \<noteq> [] \<and> 0 < lastIndexOf prUrl CHR ''/''
      then nm @ '' Pull Request'' @ '' #'' @ substring_from prUrl (lastIndexOf prUrl CHR ''/'' + 1)
      else nm @ '' Pull Request'')"

text \<open>
  The body of \<^verbatim>\<open>if (promote) { ... }\<close>. The result is the exception thrown, if any, and
  the nodes pushed onto \<^verbatim>\<open>_children\<close> until then. \<^verbatim>\<open>for (const status of statuses)\<close>
  throws a TypeError when \<^verbatim>\<open>statuses\<close> is \<^verbatim>\<open>undefined\<close>.
\<close>

definition promoteStages ::
  "Uri \<Rightarrow> PipelineActivity option \<Rightarrow> PromoteStep \<Rightarrow> error option \<times> StageNode list" where
  "promoteStages res that promote =
     (let envName = stringCapitalise (promote_environment promote);
          nm = ''Promote to '' @ envName @ '''';
          appUrl = promote_applicationURL promote;
          stageContextValue =
            (if truthy appUrl then ''vsJenkinsX.pipelines.stage.app''
             else ''vsJenkinsX.pipelines.stage'');
          promoteNode = \<lparr> stage_resource = addChildUrl res nm, name = Some nm,
            stage_pipeline = that, step = PromotePayload promote,
            contextValue = stageContextValue, url = appUrl \<rparr>;
          pullRequest = promote_pullRequest promote;
          prNodes =
            (case pullRequest of
               None \<Rightarrow> []
             | Some pr \<Rightarrow>
                 (let prUrl = orEmpty (pr_pullRequestURL pr) in
                  [\<lparr> stage_resource = addChildUrl res nm,
                     name = Some (pullRequestName nm prUrl),
                     stage_pipeline = that, step = PullRequestPayload pr,
                     contextValue = ''vsJenkinsX.pipelines.stage.pullRequest'',
                     url = Some prUrl \<rparr>]));
          appNodes =
            (if truthy appUrl
             then [\<lparr> stage_resource = addChildUrl res nm,
                     name = Some (''App promoted to '' @ envName),
                     stage_pipeline = that, step = PromotePayload promote,
                     contextValue = ''vsJenkinsX.pipelines.stage.app'', url = appUrl \<rparr>]
             else [])
      in case promote_update promote of
           None \<Rightarrow> (None, promoteNode # prNodes @ appNodes)
         | Some update \<Rightarrow>
             (case update_statuses update of
                None \<Rightarrow> (Some TypeError, promoteNode # prNodes)
              | Some statuses \<Rightarrow>
                  (None, promoteNode # prNodes @
                     [\<lparr> stage_resource = addChildUrl res nm,
                        name = Some (nm @ '' Update''),
                        stage_pipeline = that,
                        step = (case pullRequest of None \<Rightarrow> UndefinedPayload
                                | Some pr \<Rightarrow> PullRequestPayload pr),
                        contextValue = ''vsJenkinsX.pipelines.stage.update'',
                        url = updateUrl_loop (Some []) statuses \<rparr>] @ appNodes)))"

text \<open>The body of \<^verbatim>\<open>if (stage) { ... }\<close>: \<open>stage.name\<close> may be absent.\<close>

definition stageStages :: "Uri \<Rightarrow> PipelineActivity option \<Rightarrow> CoreStep \<Rightarrow> StageNode list" where
  "stageStages res that stage =
     [\<lparr> stage_resource = addChildUrl res (toStr (stage_name stage)),
        name = stage_name stage, stage_pipeline = that, step = StagePayload stage,
        contextValue = ''vsJenkinsX.pipelines.stage'', url = Some [] \<rparr>]"

text \<open>One iteration of \<^verbatim>\<open>for (const step of steps)\<close>.\<close>

definition stepStages ::
  "Uri \<Rightarrow> PipelineActivity option \<Rightarrow> Step option \<Rightarrow> error option \<times> StageNode list" where
  "stepStages res that st =
     (case st of
        None \<Rightarrow> (None, [])
      | Some s \<Rightarrow>
          (let fromStage = (case step_stage s of None \<Rightarrow> []
                            | Some stage \<Rightarrow> stageStages res that stage)
           in case step_promote s of
                None \<Rightarrow> (None, fromStage)
              | Some promote \<Rightarrow>
                  (case promoteStages res that promote of
                     (e, ns) \<Rightarrow> (e, fromStage @ ns))))"

fun stepsLoop ::
  "Uri \<Rightarrow> PipelineActivity option \<Rightarrow> Step option list \<Rightarrow> error option \<times> StageNode list" where
  "stepsLoop res that [] = (None, [])"
| "stepsLoop res that (st # rest) =
     (case stepStages res that st of
        (Some e, ns) \<Rightarrow> (Some e, ns)
      | (None, ns) \<Rightarrow> (case stepsLoop res that rest of (e, ns') \<Rightarrow> (e, ns @ ns')))"

text \<open>
  \<^verbatim>\<open>set pipeline(that)\<close>: the result is the exception thrown, if any, and the node as the
  call leaves it (an exception leaves the children pushed so far).
\<close>

definition set_pipeline :: "PipelineActivity option \<Rightarrow> BuildNode \<Rightarrow> error option \<times> BuildNode" where
  "set_pipeline that b =
     (let b1 = b\<lparr> pipeline := that, children := [] \<rparr> in
      case spec_steps (pipelineSpec b1) of
        None \<Rightarrow> (None, b1)
      | Some steps \<Rightarrow>
          (case stepsLoop (build_resource b1) (pipeline b1) steps of
             (e, ns) \<Rightarrow> (e, b1\<lparr> children := ns \<rparr>)))"

section \<open>RepoNode, OwnerNode and PipelineModel: upsert and delete\<close>

text \<open>
  The upsert operations return the exception thrown, if any, together with the node as
  the call leaves it: a node created on the way is already in its parent's map when the
  setter throws. The delete operations have no statement that can throw.
\<close>

definition newBuildNode :: "RepoNode \<Rightarrow> string \<Rightarrow> BuildNode" where
  "newBuildNode repo bn =
     \<lparr> build_resource = addChildUrl (repo_resource repo) bn, buildNumber = bn,
       pipeline = None, children = [] \<rparr>"

definition repo_upsertPipeline ::
  "string \<Rightarrow> PipelineActivity option \<Rightarrow> RepoNode \<Rightarrow> error option \<times> RepoNode" where
  "repo_upsertPipeline bn p repo =
     (if bn \<noteq> [] then
        (let build = (case jsmap_get (repo_nodes repo) bn of
                        Some b \<Rightarrow> b | None \<Rightarrow> newBuildNode repo bn)
         in case set_pipeline p build of
              (e, build') \<Rightarrow> (e, repo\<lparr> repo_nodes := jsmap_set (repo_nodes repo) bn build' \<rparr>))
      else (None, repo))"

definition repo_deletePipeline :: "string \<Rightarrow> RepoNode \<Rightarrow> RepoNode" where
  "repo_deletePipeline bn repo =
     (if bn \<noteq> [] then repo\<lparr> repo_nodes := jsmap_delete (repo_nodes repo) bn \<rparr> else repo)"

definition repo_isEmpty :: "RepoNode \<Rightarrow> bool" where
  "repo_isEmpty repo = (jsmap_size (repo_nodes repo) = 0)"

definition newRepoNode :: "OwnerNode \<Rightarrow> string \<Rightarrow> RepoNode" where
  "newRepoNode owner rn =
     \<lparr> repo_resource = addChildUrl (owner_resource owner) rn, repoName = rn, repo_nodes = [] \<rparr>"

definition owner_upsertPipeline ::
  "string \<Rightarrow> string \<Rightarrow> PipelineActivity option \<Rightarrow> OwnerNode \<Rightarrow> error option \<times> OwnerNode" where
  "owner_upsertPipeline rn bn p owner =
     (if rn \<noteq> [] then
        (let repo = (case jsmap_get (owner_nodes owner) rn of
                       Some r \<Rightarrow> r | None \<Rightarrow> newRepoNode owner rn)
         in case repo_upsertPipeline bn p repo of
              (e, repo') \<Rightarrow> (e, owner\<lparr> owner_nodes := jsmap_set (owner_nodes owner) rn repo' \<rparr>))
      else (None, owner))"

definition owner_deletePipeline :: "string \<Rightarrow> string \<Rightarrow> OwnerNode \<Rightarrow> OwnerNode" where
  "owner_deletePipeline rn bn owner =
     (if rn \<noteq> [] then
        (case jsmap_get (owner_nodes owner) rn of
           Some repo \<Rightarrow>
             owner\<lparr> owner_nodes := jsmap_set (owner_nodes owner) rn (repo_deletePipeline bn repo) \<rparr>
         | None \<Rightarrow> owner)
      else owner)"

definition owner_isEmpty :: "OwnerNode \<Rightarrow> bool" where
  "owner_isEmpty owner = (jsmap_size (owner_nodes owner) = 0)"

definition newOwnerNode :: "PipelineModel \<Rightarrow> string \<Rightarrow> OwnerNode" where
  "newOwnerNode m f =
     \<lparr> owner_resource = addChildUrl (model_resource m) f, folder = f, owner_nodes = [] \<rparr>"

definition upsertPipeline ::
  "string \<Rightarrow> string \<Rightarrow> string \<Rightarrow> PipelineActivity option \<Rightarrow> PipelineModel
     \<Rightarrow> error option \<times> PipelineModel" where
  "upsertPipeline f rn bn p m =
     (if f \<noteq> [] then
        (let owner = (case jsmap_get (model_nodes m) f of
                        Some ow \<Rightarrow> ow | None \<Rightarrow> newOwnerNode m f)
         in case owner_upsertPipeline rn bn p owner of
              (e, owner') \<Rightarrow> (e, m\<lparr> model_nodes := jsmap_set (model_nodes m) f owner' \<rparr>))
      else (None, m))"

definition deletePipeline ::
  "string \<Rightarrow> string \<Rightarrow> string \<Rightarrow> PipelineModel \<Rightarrow> PipelineModel" where
  "deletePipeline f rn bn m =
     (if f \<noteq> [] then
        (case jsmap_get (model_nodes m) f of
           Some owner \<Rightarrow>
             (let owner' = owner_deletePipeline rn bn owner in
              if owner_isEmpty owner'
              then m\<lparr> model_nodes := jsmap_delete (model_nodes m) f \<rparr>
              else m\<lparr> model_nodes := jsmap_set (model_nodes m) f owner' \<rparr>)
         | None \<Rightarrow> m)
      else m)"

section \<open>getChildren\<close>

text \<open>
  \<^verbatim>\<open>mapValuesInKeyOrder\<close>: the keys are sorted by the default order of
  \<^verbatim>\<open>Array.prototype.sort\<close> on strings, the lexicographic order of the code units.
\<close>

definition mapValuesInKeyOrder :: "(string, 'v) jsmap \<Rightarrow> 'v list" where
  "mapValuesInKeyOrder nodes = List.map_filter (jsmap_get nodes) (sort (map fst nodes))"

text \<open>
  Unary plus on a build number. A string of decimal digits is the number it writes
  (the empty string is 0); the model covers these and reads every other string as NaN
  (\<open>None\<close>). JavaScript also reads signs, blanks, fractions, exponents and radix prefixes
  as numbers; the theorems below are about build numbers made of digits. Numbers are
  doubles in JavaScript, exact for the integers up to \<open>2^53\<close>.
\<close>

definition isDigit :: "char \<Rightarrow> bool" where
  "isDigit c = (CHR ''0'' \<le> c \<and> c \<le> CHR ''9'')"

definition digitValue :: "char \<Rightarrow> int" where
  "digitValue c = int (of_char c) - 48"

definition numberOf :: "string \<Rightarrow> int" where
  "numberOf s = foldl (\<lambda>a c. 10 * a + digitValue c) 0 s"

definition toNumber :: "string \<Rightarrow> int option" where
  "toNumber s = (if list_all isDigit s then Some (numberOf s) else None)"

text \<open>The comparator of \<^verbatim>\<open>RepoNode.getChildren\<close>; \<open>None\<close> is NaN.\<close>

definition compareBuilds :: "BuildNode \<Rightarrow> BuildNode \<Rightarrow> int option" where
  "compareBuilds n1 n2 =
     (if buildNumber n1 \<noteq> [] \<and> buildNumber n2 = [] then Some 1
      else if buildNumber n1 = [] \<and> buildNumber n2 \<noteq> [] then Some (-1)
      else (case (toNumber (buildNumber n2), toNumber (buildNumber n1)) of
              (Some a, Some b) \<Rightarrow> Some (a - b)
            | _ \<Rightarrow> None))"

text \<open>
  \<^verbatim>\<open>Array.prototype.sort(comparefn)\<close> as an insertion sort: each element in turn moves
  left past the elements that compare greater than it (\<open>comparefn(left, element) > 0\<close>;
  a NaN result is not greater than 0). The sorted prefix is kept reversed, its last
  element first. For a comparator that is a total preorder every sorting algorithm
  returns a sorted permutation; for an inconsistent one the language leaves the order
  to the engine, and this is the order an insertion sort gives.
\<close>

fun sort_insert :: "('a \<Rightarrow> 'a \<Rightarrow> int option) \<Rightarrow> 'a \<Rightarrow> 'a list \<Rightarrow> 'a list" where
  "sort_insert comparefn element [] = [element]"
| "sort_insert comparefn element (tmp # prefix) =
     (case comparefn tmp element of
        Some order \<Rightarrow>
          (if 0 < order then tmp # sort_insert comparefn element prefix
           else element # tmp # prefix)
      | None \<Rightarrow> element # tmp # prefix)"

definition array_sort :: "('a \<Rightarrow> 'a \<Rightarrow> int option) \<Rightarrow> 'a list \<Rightarrow> 'a list" where
  "array_sort comparefn xs = rev (foldl (\<lambda>prefix x. sort_insert comparefn x prefix) [] xs)"

definition repo_getChildren :: "RepoNode \<Rightarrow> BuildNode list" where
  "repo_getChildren repo = array_sort compareBuilds (map snd (repo_nodes repo))"

definition build_getChildren :: "BuildNode \<Rightarrow> StageNode list" where
  "build_getChildren b = children b"

definition owner_getChildren :: "OwnerNode \<Rightarrow> RepoNode list" where
  "owner_getChildren owner = mapValuesInKeyOrder (owner_nodes owner)"

definition model_getChildren :: "PipelineModel \<Rightarrow> OwnerNode list" where
  "model_getChildren m = mapValuesInKeyOrder (model_nodes m)"

section \<open>nodeForUri\<close>

text \<open>
  The nodes behind the common interface \<^verbatim>\<open>ModelNode\<close>. \<^verbatim>\<open>nodeForUri\<close> recurses through
  \<^verbatim>\<open>getChildren\<close>; the tree has four levels below the root, so the recursion is written
  level by level. The source compares \<^verbatim>\<open>node.resource === uri\<close>, the identity of the
  Uri object; here it is the equality of the Uri values, which agrees with it when the
  uri asked for is a node's own resource and no other node has an equal one.
\<close>

datatype ModelNode =
    Model PipelineModel
  | Owner OwnerNode
  | Repo RepoNode
  | Build BuildNode
  | Stage StageNode

fun firstAnswer :: "('a \<Rightarrow> ModelNode option) \<Rightarrow> 'a list \<Rightarrow> ModelNode option" where
  "firstAnswer f [] = None"
| "firstAnswer f (child # rest) =
     (case f child of Some answer \<Rightarrow> Some answer | None \<Rightarrow> firstAnswer f rest)"

definition nodeForUri_stage :: "Uri \<Rightarrow> StageNode \<Rightarrow> ModelNode option" where
  "nodeForUri_stage uri node = (if stage_resource node = uri then Some (Stage node) else None)"

definition nodeForUri_build :: "Uri \<Rightarrow> BuildNode \<Rightarrow> ModelNode option" where
  "nodeForUri_build uri node =
     (if build_resource node = uri then Some (Build node)
      else firstAnswer (nodeForUri_stage uri) (build_getChildren node))"

definition nodeForUri_repo :: "Uri \<Rightarrow> RepoNode \<Rightarrow> ModelNode option" where
  "nodeForUri_repo uri node =
     (if repo_resource node = uri then Some (Repo node)
      else firstAnswer (nodeForUri_build uri) (repo_getChildren node))"

definition nodeForUri_owner :: "Uri \<Rightarrow> OwnerNode \<Rightarrow> ModelNode option" where
  "nodeForUri_owner uri node =
     (if owner_resource node = uri then Some (Owner node)
      else firstAnswer (nodeForUri_repo uri) (owner_getChildren node))"

definition nodeForUri :: "Uri \<Rightarrow> PipelineModel \<Rightarrow> ModelNode option" where
  "nodeForUri uri node =
     (if model_resource node = uri then Some (Model node)
      else firstAnswer (nodeForUri_owner uri) (model_getChildren node))"

section \<open>The watch callback\<close>

text \<open>
  The state the callback acts on: the model and the number of change events fired so
  far. The event type is a string. \<^verbatim>\<open>obj.metadata.name\<close> throws a TypeError when
  \<^verbatim>\<open>obj.metadata\<close> is absent.
\<close>

record WatchState =
  model :: PipelineModel
  fired :: nat

definition fireChangeEvent :: "WatchState \<Rightarrow> WatchState" where
  "fireChangeEvent st = st\<lparr> fired := fired st + 1 \<rparr>"

text \<open>The owner and the repository taken from \<^verbatim>\<open>spec.pipeline\<close> when either is missing.\<close>

definition folderAndRepo :: "Spec \<Rightarrow> string option \<times> string option" where
  "folderAndRepo sp =
     (let f = spec_gitOwner sp; rn = spec_gitRepository sp in
      if \<not> truthy f \<or> \<not> truthy rn then
        (if truthy (spec_pipeline sp) then
           (let values = split (the (spec_pipeline sp)) CHR ''/'' in
            if 2 < length values then (Some (values ! 0), Some (values ! 1)) else (f, rn))
         else (f, rn))
      else (f, rn))"

definition watchCallback ::
  "string \<Rightarrow> PipelineActivity \<Rightarrow> WatchState \<Rightarrow> error option \<times> WatchState" where
  "watchCallback type obj st =
     (case metadata obj of
        None \<Rightarrow> (Some TypeError, st)
      | Some md \<Rightarrow>
          (case spec obj of
             None \<Rightarrow> (None, st)
           | Some sp \<Rightarrow>
               if \<not> truthy (metadata_name md) then (None, st)
               else if \<not> truthy (spec_build sp) then (None, st)
               else
                 (case folderAndRepo sp of
                    (f, rn) \<Rightarrow>
                      if \<not> truthy f \<or> \<not> truthy rn then (None, st)
                      else if type = ''ADDED'' \<or> type = ''MODIFIED'' then
                        (case upsertPipeline (the f) (the rn) (the (spec_build sp)) (Some obj) (model st) of
                           (Some e, m') \<Rightarrow> (Some e, st\<lparr> model := m' \<rparr>)
                         | (None, m') \<Rightarrow> (None, fireChangeEvent (st\<lparr> model := m' \<rparr>)))
                      else if type = ''DELETED'' then
                        (None, fireChangeEvent
                           (st\<lparr> model := deletePipeline (the f) (the rn) (the (spec_build sp)) (model st) \<rparr>))
                      else (None, st))))"

section \<open>elapsedTime\<close>

text \<open>
  \<^verbatim>\<open>moment\<close> is a library outside the repository. Its two operations are parameters:
  \<open>parse\<close> is \<^verbatim>\<open>moment(s)\<close> with \<^verbatim>\<open>isValid()\<close> (\<open>None\<close> when the string is not a valid
  date-time), and \<open>humanize m1 m2\<close> is \<^verbatim>\<open>moment.duration(m1.diff(m2)).humanize()\<close>.
\<close>

definition elapsedTime ::
  "(string \<Rightarrow> 'm option) \<Rightarrow> ('m \<Rightarrow> 'm \<Rightarrow> string) \<Rightarrow> string
     \<Rightarrow> string option \<Rightarrow> string option \<Rightarrow> string" where
  "elapsedTime parse humanize prefix start completed =
     (if truthy start \<and> truthy completed then
        (case (parse (the start), parse (the completed)) of
           (Some m1, Some m2) \<Rightarrow>
             (let answer = humanize m1 m2 in
              if answer \<noteq> [] then prefix @ answer else [])
         | _ \<Rightarrow> [])
      else [])"

section \<open>Navigation and example inputs\<close>

text \<open>The Build held under the key path owner, repository, build number, if any.\<close>

definition lookupBuild :: "string \<Rightarrow> string \<Rightarrow> string \<Rightarrow> PipelineModel \<Rightarrow> BuildNode option" where
  "lookupBuild f rn bn m =
     (case jsmap_get (model_nodes m) f of
        None \<Rightarrow> None
      | Some owner \<Rightarrow>
          (case jsmap_get (owner_nodes owner) rn of
             None \<Rightarrow> None
           | Some repo \<Rightarrow> jsmap_get (repo_nodes repo) bn))"

text \<open>The step list of a raw pipeline object; no steps when any part of the path is absent.\<close>

definition stepsOf :: "PipelineActivity option \<Rightarrow> Step option list" where
  "stepsOf that =
     (case that of
        None \<Rightarrow> []
      | Some p \<Rightarrow> (case spec p of None \<Rightarrow> []
                  | Some s \<Rightarrow> (case spec_steps s of None \<Rightarrow> [] | Some steps \<Rightarrow> steps)))"

text \<open>Raw objects for the concrete instances below.\<close>

definition stageStep :: "string \<Rightarrow> Step option" where
  "stageStep n =
     Some \<lparr> step_stage = Some \<lparr> stage_name = Some n, stage_status = Some ''Succeeded'',
              stage_startedTimestamp = None, stage_completedTimestamp = None \<rparr>,
            step_promote = None \<rparr>"

definition promoteStep :: "PromoteStep \<Rightarrow> Step option" where
  "promoteStep pr = Some \<lparr> step_stage = None, step_promote = Some pr \<rparr>"

definition activity :: "string \<Rightarrow> string \<Rightarrow> string \<Rightarrow> Step option list \<Rightarrow> PipelineActivity" where
  "activity f rn bn steps =
     \<lparr> metadata = Some \<lparr> metadata_name = Some (f @ ''-'' @ rn @ ''-'' @ bn) \<rparr>,
       spec = Some \<lparr> spec_build = Some bn, spec_gitOwner = Some f, spec_gitRepository = Some rn,
         spec_pipeline = Some (f @ ''/'' @ rn @ ''/master''), spec_status = Some ''Running'',
         spec_steps = Some steps, spec_startedTimestamp = None,
         spec_completedTimestamp = None \<rparr> \<rparr>"

text \<open>
  A promote step to staging with an application URL and a pull request; the update
  sub-record is the parameter.
\<close>

definition stagingPromote :: "UpdateStep option \<Rightarrow> PromoteStep" where
  "stagingPromote upd =
     \<lparr> promote_environment = Some ''staging'', promote_applicationURL = Some ''http://x'',
       promote_pullRequest = Some \<lparr> pr_pullRequestURL = Some ''http://git/pr/42'',
         pr_status = None, pr_startedTimestamp = None, pr_completedTimestamp = None \<rparr>,
       promote_update = upd, promote_status = None,
       promote_startedTimestamp = None, promote_completedTimestamp = None \<rparr>"

definition updateWithStatuses :: UpdateStep where
  "updateWithStatuses =
     \<lparr> update_statuses = Some [\<lparr> status_url = None \<rparr>, \<lparr> status_url = Some ''http://u'' \<rparr>],
       update_status = None \<rparr>"

definition updateWithoutStatuses :: UpdateStep where
  "updateWithoutStatuses = \<lparr> update_statuses = None, update_status = None \<rparr>"

text \<open>A Build is numeric when its number is a non-empty string of digits, at most \<open>2^53\<close>.\<close>

definition numericBuild :: "BuildNode \<Rightarrow> bool" where
  "numericBuild b =
     (buildNumber b \<noteq> [] \<and> list_all isDigit (buildNumber b) \<and> numberOf (buildNumber b) \<le> 2 ^ 53)"

text \<open>The tree that holds the single build \<open>o/r/1\<close>.\<close>

definition treeWithBuild :: PipelineModel where
  "treeWithBuild =
     snd (upsertPipeline ''o'' ''r'' ''1'' (Some (activity ''o'' ''r'' ''1'' [])) newPipelineModel)"

text \<open>The Repo \<open>o/r\<close> after upserts of the given build numbers, in that order.\<close>

definition repoWithBuilds :: "string list \<Rightarrow> RepoNode" where
  "repoWithBuilds bns =
     foldl (\<lambda>repo bn. snd (repo_upsertPipeline bn (Some (activity ''o'' ''r'' bn [])) repo))
       (newRepoNode (newOwnerNode newPipelineModel ''o'') ''r'') bns"

section \<open>Facts about the maps and the setter\<close>

lemma jsmap_get_set_same: "jsmap_get (jsmap_set m k v) k = Some v"
  by (induction m) auto

lemma jsmap_set_set: "jsmap_set (jsmap_set m k v) k v' = jsmap_set m k v'"
  by (induction m) auto

lemma jsmap_set_get_id: "jsmap_get m k = Some v \<Longrightarrow> jsmap_set m k v = m"
  by (induction m) (auto split: if_splits)

lemma jsmap_delete_absent: "jsmap_get m k = None \<Longrightarrow> jsmap_delete m k = m"
  by (induction m) (auto split: if_splits)

lemma jsmap_set_absent: "jsmap_get m k = None \<Longrightarrow> jsmap_set m k v = m @ [(k, v)]"
  by (induction m) (auto split: if_splits)

text \<open>The setter forgets what the node held before: pipeline and children are overwritten.\<close>

lemma set_pipeline_overwrite: "set_pipeline p (snd (set_pipeline q b)) = set_pipeline p b"
  by (simp add: set_pipeline_def pipelineSpec_def Let_def split: option.splits prod.splits)

lemma set_pipeline_result:
  "pipeline (snd (set_pipeline p b)) = p \<and>
   build_resource (snd (set_pipeline p b)) = build_resource b \<and>
   buildNumber (snd (set_pipeline p b)) = buildNumber b \<and>
   children (snd (set_pipeline p b)) = snd (stepsLoop (build_resource b) p (stepsOf p))"
  by (simp add: set_pipeline_def pipelineSpec_def stepsOf_def emptySpec_def Let_def
      split: option.splits prod.splits)

lemma repo_upsert_overwrite:
  "repo_upsertPipeline bn p (snd (repo_upsertPipeline bn q repo)) = repo_upsertPipeline bn p repo"
proof (cases "bn = []")
  case True
  then show ?thesis by (simp add: repo_upsertPipeline_def)
next
  case False
  define b0 where
    "b0 = (case jsmap_get (repo_nodes repo) bn of Some b \<Rightarrow> b | None \<Rightarrow> newBuildNode repo bn)"
  obtain e b' where q: "set_pipeline q b0 = (e, b')"
    by (cases "set_pipeline q b0")
  have "set_pipeline p b' = set_pipeline p b0"
    using set_pipeline_overwrite [of p q b0] q by simp
  with False q show ?thesis
    by (simp add: repo_upsertPipeline_def b0_def jsmap_get_set_same jsmap_set_set
        split: prod.splits)
qed

lemma owner_upsert_overwrite:
  "owner_upsertPipeline rn bn p (snd (owner_upsertPipeline rn bn q owner)) =
   owner_upsertPipeline rn bn p owner"
proof (cases "rn = []")
  case True
  then show ?thesis by (simp add: owner_upsertPipeline_def)
next
  case False
  define r0 where
    "r0 = (case jsmap_get (owner_nodes owner) rn of Some r \<Rightarrow> r | None \<Rightarrow> newRepoNode owner rn)"
  obtain e r' where q: "repo_upsertPipeline bn q r0 = (e, r')"
    by (cases "repo_upsertPipeline bn q r0")
  have "repo_upsertPipeline bn p r' = repo_upsertPipeline bn p r0"
    using repo_upsert_overwrite [of bn p q r0] q by simp
  with False q show ?thesis
    by (simp add: owner_upsertPipeline_def r0_def jsmap_get_set_same jsmap_set_set
        split: prod.splits)
qed

lemma upsert_overwrite:
  "upsertPipeline f rn bn p (snd (upsertPipeline f rn bn q m)) = upsertPipeline f rn bn p m"
proof (cases "f = []")
  case True
  then show ?thesis by (simp add: upsertPipeline_def)
next
  case False
  define o0 where
    "o0 = (case jsmap_get (model_nodes m) f of Some ow \<Rightarrow> ow | None \<Rightarrow> newOwnerNode m f)"
  obtain e o' where q: "owner_upsertPipeline rn bn q o0 = (e, o')"
    by (cases "owner_upsertPipeline rn bn q o0")
  have "owner_upsertPipeline rn bn p o' = owner_upsertPipeline rn bn p o0"
    using owner_upsert_overwrite [of rn bn p q o0] q by simp
  with False q show ?thesis
    by (simp add: upsertPipeline_def o0_def jsmap_get_set_same jsmap_set_set
        split: prod.splits)
qed

lemma repo_upsert_get:
  "bn \<noteq> [] \<Longrightarrow>
   \<exists>b0. jsmap_get (repo_nodes (snd (repo_upsertPipeline bn p repo))) bn =
      Some (snd (set_pipeline p b0))"
  by (auto simp: repo_upsertPipeline_def Let_def jsmap_get_set_same split: prod.splits)
     (metis snd_conv)

lemma owner_upsert_get:
  "rn \<noteq> [] \<Longrightarrow>
   \<exists>r0. jsmap_get (owner_nodes (snd (owner_upsertPipeline rn bn p owner))) rn =
      Some (snd (repo_upsertPipeline bn p r0))"
  by (auto simp: owner_upsertPipeline_def Let_def jsmap_get_set_same split: prod.splits)
     (metis snd_conv)

lemma model_upsert_get:
  "f \<noteq> [] \<Longrightarrow>
   \<exists>o0. jsmap_get (model_nodes (snd (upsertPipeline f rn bn p m))) f =
      Some (snd (owner_upsertPipeline rn bn p o0))"
  by (auto simp: upsertPipeline_def Let_def jsmap_get_set_same split: prod.splits)
     (metis snd_conv)

lemma lookupBuild_upsert:
  assumes "f \<noteq> []" "rn \<noteq> []" "bn \<noteq> []"
  shows "\<exists>b0. lookupBuild f rn bn (snd (upsertPipeline f rn bn p m)) =
           Some (snd (set_pipeline p b0))"
proof -
  obtain o0 where o: "jsmap_get (model_nodes (snd (upsertPipeline f rn bn p m))) f =
      Some (snd (owner_upsertPipeline rn bn p o0))"
    using model_upsert_get [OF assms(1)] by blast
  obtain r0 where r: "jsmap_get (owner_nodes (snd (owner_upsertPipeline rn bn p o0))) rn =
      Some (snd (repo_upsertPipeline bn p r0))"
    using owner_upsert_get [OF assms(2)] by blast
  obtain b0 where b: "jsmap_get (repo_nodes (snd (repo_upsertPipeline bn p r0))) bn =
      Some (snd (set_pipeline p b0))"
    using repo_upsert_get [OF assms(3)] by blast
  have "lookupBuild f rn bn (snd (upsertPipeline f rn bn p m)) = Some (snd (set_pipeline p b0))"
    by (simp add: lookupBuild_def o r b)
  then show ?thesis by blast
qed

text \<open>Every node the loop pushes carries the raw object it was derived from.\<close>

lemma promoteStages_pipeline:
  "promoteStages res that promote = (e, ns) \<Longrightarrow> n \<in> set ns \<Longrightarrow> stage_pipeline n = that"
  by (auto simp: promoteStages_def Let_def split: option.splits if_splits)

lemma stepStages_pipeline:
  "stepStages res that st = (e, ns) \<Longrightarrow> n \<in> set ns \<Longrightarrow> stage_pipeline n = that"
  by (auto simp: stepStages_def stageStages_def Let_def split: option.splits prod.splits
      dest: promoteStages_pipeline)

lemma stepsLoop_pipeline:
  "stepsLoop res that steps = (e, ns) \<Longrightarrow> n \<in> set ns \<Longrightarrow> stage_pipeline n = that"
proof (induction steps arbitrary: e ns)
  case Nil
  then show ?case by simp
next
  case (Cons st rest)
  then show ?case
    by (auto split: prod.splits option.splits dest: stepStages_pipeline)
qed

section \<open>Idempotence and full replacement\<close>

text \<open>
  C6. For every tree state and every owner, repository, build number and raw object,
  upserting the same arguments a second time returns what the first call returned and
  leaves the tree exactly as the first call left it: the same Owner, Repo and Build
  entries in the same order, and the same Stage list.
\<close>

theorem C6_upsert_idempotent:
  "upsertPipeline f rn bn p (snd (upsertPipeline f rn bn p m)) = upsertPipeline f rn bn p m"
  by (rule upsert_overwrite)

text \<open>
  C5. Upserting a raw object replaces the Build's Stage list: after an upsert of
  \<open>old\<close> followed by an upsert of \<open>new\<close> under the same non-empty key, the Build holds
  \<open>new\<close>, its children are exactly the Stage nodes the loop derives from the step list of
  \<open>new\<close>, every one of them carries \<open>new\<close> as its raw object, and the tree is the one
  an upsert of \<open>new\<close> alone would have given.
\<close>

theorem C5_full_replacement:
  assumes "f \<noteq> []" and "rn \<noteq> []" and "bn \<noteq> []"
  shows "\<exists>b. lookupBuild f rn bn
            (snd (upsertPipeline f rn bn new (snd (upsertPipeline f rn bn old m)))) = Some b
          \<and> pipeline b = new
          \<and> build_getChildren b = snd (stepsLoop (build_resource b) new (stepsOf new))
          \<and> list_all (\<lambda>n. stage_pipeline n = new) (build_getChildren b)
          \<and> snd (upsertPipeline f rn bn new (snd (upsertPipeline f rn bn old m)))
              = snd (upsertPipeline f rn bn new m)"
proof -
  obtain b0 where b0: "lookupBuild f rn bn
      (snd (upsertPipeline f rn bn new (snd (upsertPipeline f rn bn old m)))) =
      Some (snd (set_pipeline new b0))"
    using lookupBuild_upsert [OF assms] by blast
  have "list_all (\<lambda>n. stage_pipeline n = new)
          (snd (stepsLoop (build_resource b0) new (stepsOf new)))"
    unfolding list_all_iff using stepsLoop_pipeline by (metis prod.collapse)
  with b0 show ?thesis
    by (simp add: set_pipeline_result build_getChildren_def upsert_overwrite)
qed

theorem C5_full_replacement_witness:
  "''o'' \<noteq> [] \<and> ''r'' \<noteq> [] \<and> ''42'' \<noteq> [] \<and>
   (\<exists>b. lookupBuild ''o'' ''r'' ''42''
          (snd (upsertPipeline ''o'' ''r'' ''42''
                  (Some (activity ''o'' ''r'' ''42'' [stageStep ''Build'', stageStep ''Deploy'']))
                  (snd (upsertPipeline ''o'' ''r'' ''42''
                          (Some (activity ''o'' ''r'' ''42'' [stageStep ''Build'', stageStep ''Test'']))
                          newPipelineModel)))) = Some b
        \<and> map name (build_getChildren b) = [Some ''Build'', Some ''Deploy''])"
  using C5_full_replacement [of "''o''" "''r''" "''42''"
      "Some (activity ''o'' ''r'' ''42'' [stageStep ''Build'', stageStep ''Deploy''])"
      "Some (activity ''o'' ''r'' ''42'' [stageStep ''Build'', stageStep ''Test''])"
      newPipelineModel]
  by (auto simp: stepsOf_def activity_def stageStep_def stepStages_def stageStages_def)

section \<open>The stages derived from a promote step\<close>

lemma toUpperCase_char_s: "toUpperCase_char CHR ''s'' = CHR ''S''"
  by code_simp

lemma stringCapitalise_staging: "stringCapitalise (Some ''staging'') = ''Staging''"
  by (simp add: stringCapitalise_def truthy_def toUpperCase_char_s)

text \<open>
  C7. A step whose promote sub-record has the environment \<open>staging\<close>, the application
  URL \<open>http://x\<close> and a pull request with the URL \<open>http://git/pr/42\<close> (and no update)
  yields, for every Build resource and raw object, without an exception, three Stage
  nodes in this order: \<open>Promote to Staging\<close> tagged app, \<open>Promote to Staging Pull Request
  #42\<close> tagged pull request, and \<open>App promoted to Staging\<close> tagged app.
\<close>

theorem C7_promote_expansion:
  "fst (stepStages res that (promoteStep (stagingPromote None))) = None \<and>
   map (\<lambda>n. (name n, contextValue n))
     (snd (stepStages res that (promoteStep (stagingPromote None)))) =
       [(Some ''Promote to Staging'', ''vsJenkinsX.pipelines.stage.app''),
        (Some ''Promote to Staging Pull Request #42'', ''vsJenkinsX.pipelines.stage.pullRequest''),
        (Some ''App promoted to Staging'', ''vsJenkinsX.pipelines.stage.app'')]"
  by (simp add: stepStages_def promoteStep_def stagingPromote_def promoteStages_def Let_def
      stringCapitalise_staging truthy_def orEmpty_def pullRequestName_def substring_from_def)

text \<open>
  C9. For every step with a promote sub-record that carries an update sub-record (with
  a status list, so that the node is emitted), exactly one of the step's Stage nodes is
  tagged update, and its step payload is the promote record's pullRequest sub-record
  (\<^verbatim>\<open>undefined\<close> when there is none), never the update record.
\<close>

theorem C9_update_payload:
  assumes "step_promote s = Some promote" and "promote_update promote = Some u"
    and "update_statuses u = Some sts"
  shows "\<exists>n. filter (\<lambda>n. contextValue n = ''vsJenkinsX.pipelines.stage.update'')
               (snd (stepStages res that (Some s))) = [n]
           \<and> step n = (case promote_pullRequest promote of
                         None \<Rightarrow> UndefinedPayload | Some pr \<Rightarrow> PullRequestPayload pr)
           \<and> step n \<noteq> UpdatePayload u"
  using assms
  by (auto simp: stepStages_def stageStages_def promoteStages_def Let_def
      split: option.splits)

theorem C9_update_payload_witness:
  "step_promote \<lparr> step_stage = None, step_promote = Some (stagingPromote (Some updateWithStatuses)) \<rparr>
     = Some (stagingPromote (Some updateWithStatuses))
   \<and> promote_update (stagingPromote (Some updateWithStatuses)) = Some updateWithStatuses
   \<and> update_statuses updateWithStatuses
       = Some [\<lparr> status_url = None \<rparr>, \<lparr> status_url = Some ''http://u'' \<rparr>]
   \<and> (\<exists>n. filter (\<lambda>n. contextValue n = ''vsJenkinsX.pipelines.stage.update'')
           (snd (stepStages (model_resource newPipelineModel) None
              (Some \<lparr> step_stage = None,
                      step_promote = Some (stagingPromote (Some updateWithStatuses)) \<rparr>))) = [n]
         \<and> step n = PullRequestPayload \<lparr> pr_pullRequestURL = Some ''http://git/pr/42'',
             pr_status = None, pr_startedTimestamp = None, pr_completedTimestamp = None \<rparr>)"
  using C9_update_payload [of
      "\<lparr> step_stage = None, step_promote = Some (stagingPromote (Some updateWithStatuses)) \<rparr>"
      "stagingPromote (Some updateWithStatuses)" updateWithStatuses
      "[\<lparr> status_url = None \<rparr>, \<lparr> status_url = Some ''http://u'' \<rparr>]"
      "model_resource newPipelineModel" None]
  by (auto simp: stagingPromote_def updateWithStatuses_def)

section \<open>Exceptions\<close>

text \<open>
  C4. The claim is that upsert never throws for non-empty keys, also for a raw object
  whose promote step carries an update sub-record with no status list. On the empty
  tree, with the keys \<open>o\<close>, \<open>r\<close>, \<open>1\<close> and such an object, the call throws a TypeError:
  the loop over \<^verbatim>\<open>update.statuses\<close> has no guard for an absent list.
\<close>

theorem C4_upsert_throws:
  "fst (upsertPipeline ''o'' ''r'' ''1''
          (Some (activity ''o'' ''r'' ''1'' [promoteStep (stagingPromote (Some updateWithoutStatuses))]))
          newPipelineModel) = Some TypeError"
  by (simp add: upsertPipeline_def owner_upsertPipeline_def repo_upsertPipeline_def
      newPipelineModel_def newOwnerNode_def newRepoNode_def newBuildNode_def set_pipeline_def
      pipelineSpec_def activity_def promoteStep_def stagingPromote_def updateWithoutStatuses_def
      stepStages_def promoteStages_def Let_def)

section \<open>Owner pruning\<close>

text \<open>
  C1. The claim is that deleting the only Build of the only Repo of an Owner removes the
  Owner from the root's children and that \<^verbatim>\<open>nodeForUri\<close> no longer finds it. On the
  tree that holds only the build \<open>o/r/1\<close>, the delete leaves the Owner \<open>o\<close> among the
  root's children, holding the Repo \<open>r\<close> with no builds, and \<^verbatim>\<open>nodeForUri\<close> for the
  Owner's resource returns that Owner: the Repo is never removed from the Owner's map,
  so \<^verbatim>\<open>owner.isEmpty()\<close> is false.
\<close>

theorem C1_owner_survives:
  "map (\<lambda>ow. map (\<lambda>r. map buildNumber (repo_getChildren r)) (owner_getChildren ow))
     (model_getChildren (snd (upsertPipeline ''o'' ''r'' ''1''
        (Some (activity ''o'' ''r'' ''1'' [])) newPipelineModel))) = [[[''1'']]]
   \<and> map folder (model_getChildren (deletePipeline ''o'' ''r'' ''1''
        (snd (upsertPipeline ''o'' ''r'' ''1''
           (Some (activity ''o'' ''r'' ''1'' [])) newPipelineModel)))) = [''o'']
   \<and> nodeForUri \<lparr> uri_scheme = ''pipeline'', uri_path = ''localhost/o'' \<rparr>
        (deletePipeline ''o'' ''r'' ''1''
          (snd (upsertPipeline ''o'' ''r'' ''1''
             (Some (activity ''o'' ''r'' ''1'' [])) newPipelineModel)))
      = Some (Owner \<lparr> owner_resource = \<lparr> uri_scheme = ''pipeline'', uri_path = ''localhost/o'' \<rparr>,
           folder = ''o'',
           owner_nodes =
             [(''r'', \<lparr> repo_resource = \<lparr> uri_scheme = ''pipeline'', uri_path = ''localhost/o/r'' \<rparr>,
                 repoName = ''r'', repo_nodes = [] \<rparr>)] \<rparr>)"
  by (simp add: upsertPipeline_def owner_upsertPipeline_def repo_upsertPipeline_def
      deletePipeline_def owner_deletePipeline_def repo_deletePipeline_def owner_isEmpty_def
      jsmap_size_def
      newPipelineModel_def newOwnerNode_def newRepoNode_def newBuildNode_def set_pipeline_def
      pipelineSpec_def activity_def Let_def addChildUrl_def
      model_getChildren_def owner_getChildren_def repo_getChildren_def mapValuesInKeyOrder_def
      List.map_filter_def array_sort_def nodeForUri_def nodeForUri_owner_def)

section \<open>Watch events of other types\<close>

text \<open>
  C10. For every watch event whose type is none of \<open>ADDED\<close>, \<open>MODIFIED\<close>, \<open>DELETED\<close>, for
  every object and state, the callback leaves the tree unchanged and fires no change
  event, whatever the object carries.
\<close>

theorem C10_other_event_types:
  "type \<noteq> ''ADDED'' \<Longrightarrow> type \<noteq> ''MODIFIED'' \<Longrightarrow> type \<noteq> ''DELETED'' \<Longrightarrow>
   snd (watchCallback type obj st) = st"
  by (simp add: watchCallback_def split: option.splits prod.splits)

theorem C10_other_event_types_witness:
  "''ERROR'' \<noteq> ''ADDED'' \<and> ''ERROR'' \<noteq> ''MODIFIED'' \<and> ''ERROR'' \<noteq> ''DELETED''
   \<and> snd (watchCallback ''ERROR'' (activity ''o'' ''r'' ''1'' [])
            \<lparr> model = newPipelineModel, fired = 0 \<rparr>) = \<lparr> model = newPipelineModel, fired = 0 \<rparr>
   \<and> fired (snd (watchCallback ''ADDED'' (activity ''o'' ''r'' ''1'' [])
            \<lparr> model = newPipelineModel, fired = 0 \<rparr>)) = 1
   \<and> lookupBuild ''o'' ''r'' ''1'' (model (snd (watchCallback ''ADDED'' (activity ''o'' ''r'' ''1'' [])
            \<lparr> model = newPipelineModel, fired = 0 \<rparr>))) \<noteq> None"
  using C10_other_event_types [of "''ERROR''" "activity ''o'' ''r'' ''1'' []"
      "\<lparr> model = newPipelineModel, fired = 0 \<rparr>"]
  by (simp add: watchCallback_def activity_def folderAndRepo_def truthy_def fireChangeEvent_def
      upsertPipeline_def owner_upsertPipeline_def repo_upsertPipeline_def
      newPipelineModel_def newOwnerNode_def newRepoNode_def newBuildNode_def set_pipeline_def
      pipelineSpec_def lookupBuild_def Let_def)

section \<open>Missing keys\<close>

lemma treeWithBuild_eval:
  "treeWithBuild = \<lparr> model_nodes =
     [(''o'', \<lparr> owner_resource = \<lparr> uri_scheme = ''pipeline'', uri_path = ''localhost/o'' \<rparr>,
         folder = ''o'',
         owner_nodes =
           [(''r'', \<lparr> repo_resource = \<lparr> uri_scheme = ''pipeline'', uri_path = ''localhost/o/r'' \<rparr>,
               repoName = ''r'',
               repo_nodes = [(''1'', \<lparr> build_resource = \<lparr> uri_scheme = ''pipeline'', uri_path = ''localhost/o/r/1'' \<rparr>,
                   buildNumber = ''1'', pipeline = Some (activity ''o'' ''r'' ''1'' []), children = [] \<rparr>)] \<rparr>)] \<rparr>)],
     model_resource = \<lparr> uri_scheme = ''pipeline'', uri_path = ''localhost'' \<rparr> \<rparr>"
  by (simp add: treeWithBuild_def upsertPipeline_def owner_upsertPipeline_def repo_upsertPipeline_def
      newPipelineModel_def newOwnerNode_def newRepoNode_def newBuildNode_def set_pipeline_def
      pipelineSpec_def activity_def Let_def addChildUrl_def)

text \<open>
  C2, as claimed: an upsert with an empty repository name and a delete for a key path
  that does not exist leave the tree unchanged. On the empty tree, the upsert with the
  owner \<open>o\<close> and an empty repository name adds the Owner \<open>o\<close>; on the tree it leaves,
  whose key path \<open>o/r/1\<close> does not exist, the delete for that path removes the Owner.
\<close>

theorem C2_missing_key_counterexample:
  "snd (upsertPipeline ''o'' [] ''1'' (Some (activity ''o'' [] ''1'' [])) newPipelineModel)
     \<noteq> newPipelineModel
   \<and> map folder (model_getChildren
        (snd (upsertPipeline ''o'' [] ''1'' (Some (activity ''o'' [] ''1'' [])) newPipelineModel)))
      = [''o'']
   \<and> lookupBuild ''o'' ''r'' ''1''
        (snd (upsertPipeline ''o'' [] ''1'' (Some (activity ''o'' [] ''1'' [])) newPipelineModel))
      = None
   \<and> deletePipeline ''o'' ''r'' ''1''
        (snd (upsertPipeline ''o'' [] ''1'' (Some (activity ''o'' [] ''1'' [])) newPipelineModel))
      \<noteq> snd (upsertPipeline ''o'' [] ''1'' (Some (activity ''o'' [] ''1'' [])) newPipelineModel)"
  by (simp add: upsertPipeline_def owner_upsertPipeline_def newPipelineModel_def newOwnerNode_def
      model_getChildren_def mapValuesInKeyOrder_def List.map_filter_def lookupBuild_def
      deletePipeline_def owner_deletePipeline_def owner_isEmpty_def jsmap_size_def)

text \<open>
  C2, amended. An upsert with a non-empty owner and an empty repository name throws
  nothing and changes nothing but this: when the Owner is absent, a new Owner with no
  repositories is appended to the root's map. A delete for a key path that does not
  exist leaves the tree unchanged when the Owner is absent or holds at least one Repo.
\<close>

theorem C2_missing_key:
  "(f \<noteq> [] \<longrightarrow>
      upsertPipeline f [] bn p m =
        (None, if jsmap_get (model_nodes m) f = None
               then m\<lparr> model_nodes := model_nodes m @ [(f, newOwnerNode m f)] \<rparr> else m))
   \<and> (lookupBuild f' rn' bn' m' = None
        \<and> (case jsmap_get (model_nodes m') f' of None \<Rightarrow> True | Some ow \<Rightarrow> owner_nodes ow \<noteq> [])
      \<longrightarrow> deletePipeline f' rn' bn' m' = m')"
proof (intro conjI impI)
  assume "f \<noteq> []"
  then show "upsertPipeline f [] bn p m =
        (None, if jsmap_get (model_nodes m) f = None
               then m\<lparr> model_nodes := model_nodes m @ [(f, newOwnerNode m f)] \<rparr> else m)"
    by (auto simp: upsertPipeline_def owner_upsertPipeline_def jsmap_set_absent jsmap_set_get_id)
next
  assume a: "lookupBuild f' rn' bn' m' = None
        \<and> (case jsmap_get (model_nodes m') f' of None \<Rightarrow> True | Some ow \<Rightarrow> owner_nodes ow \<noteq> [])"
  show "deletePipeline f' rn' bn' m' = m'"
  proof (cases "jsmap_get (model_nodes m') f'")
    case None
    then show ?thesis by (simp add: deletePipeline_def)
  next
    case (Some ow)
    with a have ne: "owner_nodes ow \<noteq> []" by simp
    have "owner_deletePipeline rn' bn' ow = ow"
    proof (cases "jsmap_get (owner_nodes ow) rn'")
      case None
      then show ?thesis by (simp add: owner_deletePipeline_def)
    next
      case (Some repo)
      with a \<open>jsmap_get (model_nodes m') f' = Some ow\<close>
      have "jsmap_get (repo_nodes repo) bn' = None" by (simp add: lookupBuild_def)
      then have "repo_deletePipeline bn' repo = repo"
        by (simp add: repo_deletePipeline_def jsmap_delete_absent)
      with Some show ?thesis by (simp add: owner_deletePipeline_def jsmap_set_get_id)
    qed
    with Some ne show ?thesis
      by (simp add: deletePipeline_def owner_isEmpty_def jsmap_size_def jsmap_set_get_id)
  qed
qed

theorem C2_missing_key_witness:
  "''o'' \<noteq> []
   \<and> jsmap_get (model_nodes treeWithBuild) ''o'' \<noteq> None
   \<and> upsertPipeline ''o'' [] ''2'' None treeWithBuild = (None, treeWithBuild)
   \<and> lookupBuild ''o'' ''r'' ''7'' treeWithBuild = None
   \<and> deletePipeline ''o'' ''r'' ''7'' treeWithBuild = treeWithBuild
   \<and> map fst (model_nodes (snd (upsertPipeline ''q'' [] ''2'' None treeWithBuild))) = [''o'', ''q'']"
  using C2_missing_key [of "''o''" "''2''" None treeWithBuild "''o''" "''r''" "''7''" treeWithBuild]
    C2_missing_key [of "''q''" "''2''" None treeWithBuild "''o''" "''r''" "''7''" treeWithBuild]
  by (simp add: treeWithBuild_eval lookupBuild_def)

section \<open>The order of a Repo's builds\<close>

text \<open>
  On numeric builds the comparator is the difference of the numbers, a total preorder,
  and the sort returns the builds in descending order.
\<close>

lemma compareBuilds_numeric:
  "numericBuild a \<Longrightarrow> numericBuild b \<Longrightarrow>
   compareBuilds a b = Some (numberOf (buildNumber b) - numberOf (buildNumber a))"
  by (simp add: compareBuilds_def numericBuild_def toNumber_def)

lemma mset_sort_insert: "mset (sort_insert f x ys) = add_mset x (mset ys)"
  by (induction ys) (auto split: option.splits)

lemma set_sort_insert: "set (sort_insert f x ys) = insert x (set ys)"
  by (induction ys) (auto split: option.splits)

lemma sorted_sort_insert:
  assumes "numericBuild x" and "list_all numericBuild ys"
    and "sorted (map (\<lambda>b. numberOf (buildNumber b)) ys)"
  shows "sorted (map (\<lambda>b. numberOf (buildNumber b)) (sort_insert compareBuilds x ys))"
  using assms
proof (induction ys)
  case Nil
  then show ?case by simp
next
  case (Cons tmp prefix)
  then have c: "compareBuilds tmp x = Some (numberOf (buildNumber x) - numberOf (buildNumber tmp))"
    by (simp add: compareBuilds_numeric)
  show ?case
  proof (cases "0 < numberOf (buildNumber x) - numberOf (buildNumber tmp)")
    case True
    with Cons c show ?thesis
      by (auto simp: set_sort_insert)
  next
    case False
    with Cons c show ?thesis by auto
  qed
qed

lemma foldl_sort_insert:
  assumes "list_all numericBuild xs" and "list_all numericBuild acc"
    and "sorted (map (\<lambda>b. numberOf (buildNumber b)) acc)"
  shows "sorted (map (\<lambda>b. numberOf (buildNumber b))
           (foldl (\<lambda>prefix x. sort_insert compareBuilds x prefix) acc xs))"
  using assms
proof (induction xs arbitrary: acc)
  case Nil
  then show ?case by simp
next
  case (Cons x xs)
  have "list_all numericBuild (sort_insert compareBuilds x acc)"
    using Cons.prems by (simp add: list_all_iff set_sort_insert)
  moreover have "sorted (map (\<lambda>b. numberOf (buildNumber b)) (sort_insert compareBuilds x acc))"
    using Cons.prems by (simp add: sorted_sort_insert)
  ultimately show ?case using Cons by simp
qed

lemma mset_foldl_sort_insert:
  "mset (foldl (\<lambda>prefix x. sort_insert f x prefix) acc xs) = mset acc + mset xs"
  by (induction xs arbitrary: acc) (auto simp: mset_sort_insert)

lemma array_sort_numeric:
  assumes "list_all numericBuild xs"
  shows "sorted_wrt (\<lambda>a b. numberOf (buildNumber b) \<le> numberOf (buildNumber a))
           (array_sort compareBuilds xs)
         \<and> mset (array_sort compareBuilds xs) = mset xs"
proof -
  have "sorted (map (\<lambda>b. numberOf (buildNumber b))
           (foldl (\<lambda>prefix x. sort_insert compareBuilds x prefix) [] xs))"
    using assms by (intro foldl_sort_insert) simp_all
  then show ?thesis
    by (simp add: array_sort_def sorted_wrt_rev sorted_map mset_foldl_sort_insert)
qed

lemma repoWithBuilds_example:
  "map buildNumber (repo_getChildren (repoWithBuilds [''3'', ''1'', ''10'', ''abc'']))
     = [''10'', ''3'', ''1'', ''abc'']"
  by (simp add: repoWithBuilds_def repo_upsertPipeline_def newRepoNode_def newOwnerNode_def
      newPipelineModel_def newBuildNode_def set_pipeline_def pipelineSpec_def activity_def
      Let_def repo_getChildren_def array_sort_def compareBuilds_def toNumber_def isDigit_def
      numberOf_def digitValue_def)

text \<open>
  C3, as claimed: the builds come numeric-descending with the non-numeric ones last.
  A non-numeric build number makes the comparator return NaN against every other
  build, so the build stays where the insertion order put it: inserted first, \<open>abc\<close>
  comes first, and inserted between \<open>1\<close> and \<open>3\<close> it keeps them in ascending order.
\<close>

theorem C3_build_order_counterexample:
  "map buildNumber (repo_getChildren (repoWithBuilds [''abc'', ''3'', ''1'', ''10'']))
     = [''abc'', ''10'', ''3'', ''1'']
   \<and> map buildNumber (repo_getChildren (repoWithBuilds [''1'', ''abc'', ''3'']))
     = [''1'', ''abc'', ''3'']"
  by (simp add: repoWithBuilds_def repo_upsertPipeline_def newRepoNode_def newOwnerNode_def
      newPipelineModel_def newBuildNode_def set_pipeline_def pipelineSpec_def activity_def
      Let_def repo_getChildren_def array_sort_def compareBuilds_def toNumber_def isDigit_def
      numberOf_def digitValue_def)

text \<open>
  C3, amended. For every Repo whose builds are all numeric, \<^verbatim>\<open>getChildren\<close> returns
  exactly the Repo's builds, sorted descending by build number; and the Repo whose
  builds were inserted in the order \<open>3\<close>, \<open>1\<close>, \<open>10\<close>, \<open>abc\<close> returns them in the order
  \<open>10\<close>, \<open>3\<close>, \<open>1\<close>, \<open>abc\<close>.
\<close>

theorem C3_build_order:
  "(list_all numericBuild (map snd (repo_nodes repo)) \<longrightarrow>
      sorted_wrt (\<lambda>a b. numberOf (buildNumber b) \<le> numberOf (buildNumber a))
        (repo_getChildren repo)
      \<and> mset (repo_getChildren repo) = mset (map snd (repo_nodes repo)))
   \<and> map buildNumber (repo_getChildren (repoWithBuilds [''3'', ''1'', ''10'', ''abc'']))
       = [''10'', ''3'', ''1'', ''abc'']"
  using array_sort_numeric [of "map snd (repo_nodes repo)"] repoWithBuilds_example
  by (simp add: repo_getChildren_def)

theorem C3_build_order_witness:
  "list_all numericBuild (map snd (repo_nodes (repoWithBuilds [''3'', ''1'', ''10''])))
   \<and> sorted_wrt (\<lambda>a b. numberOf (buildNumber b) \<le> numberOf (buildNumber a))
        (repo_getChildren (repoWithBuilds [''3'', ''1'', ''10'']))
   \<and> map fst (repo_nodes (repoWithBuilds [''3'', ''1'', ''10''])) = [''3'', ''1'', ''10'']"
  using C3_build_order [of "repoWithBuilds [''3'', ''1'', ''10'']"]
  by (simp add: repoWithBuilds_def repo_upsertPipeline_def newRepoNode_def newOwnerNode_def
      newPipelineModel_def newBuildNode_def set_pipeline_def pipelineSpec_def activity_def
      Let_def numericBuild_def isDigit_def numberOf_def digitValue_def)

section \<open>Elapsed time\<close>

text \<open>
  C8. With a parser that rejects the empty string and a \<^verbatim>\<open>humanize\<close> that never returns
  the empty string (as \<^verbatim>\<open>moment\<close> does), \<^verbatim>\<open>elapsedTime\<close> returns the prefix followed by
  the humanized duration when both timestamps are present and parse as valid
  date-times, and the empty string otherwise; no branch throws. In particular, when
  the parser rejects \<open>not-a-date\<close> or \<open>also-not\<close>, the call with the prefix
  \<open>Duration: \<close> and these two timestamps returns the empty string.
\<close>

theorem C8_elapsedTime:
  "(parse [] = None \<and> (\<forall>m1 m2. humanize m1 m2 \<noteq> []) \<longrightarrow>
      elapsedTime parse humanize prefix start completed =
        (case (Option.bind start parse, Option.bind completed parse) of
           (Some m1, Some m2) \<Rightarrow> prefix @ humanize m1 m2
         | _ \<Rightarrow> []))
   \<and> (parse ''not-a-date'' = None \<or> parse ''also-not'' = None \<longrightarrow>
        elapsedTime parse humanize ''Duration: '' (Some ''not-a-date'') (Some ''also-not'') = [])"
  by (cases start; cases completed)
     (auto simp: elapsedTime_def truthy_def Let_def split: option.splits)

theorem C8_elapsedTime_witness:
  "elapsedTime (\<lambda>s. if s = ''2018-10-01T10:00:00Z'' then Some (0::nat)
                     else if s = ''2018-10-01T12:00:00Z'' then Some 7200 else None)
      (\<lambda>m1 m2. ''2 hours'') '' Duration: ''
      (Some ''2018-10-01T10:00:00Z'') (Some ''2018-10-01T12:00:00Z'') = '' Duration: 2 hours''
   \<and> elapsedTime (\<lambda>s. if s = ''2018-10-01T10:00:00Z'' then Some (0::nat)
                     else if s = ''2018-10-01T12:00:00Z'' then Some 7200 else None)
      (\<lambda>m1 m2. ''2 hours'') '' Duration: ''
      (Some ''2018-10-01T10:00:00Z'') None = []
   \<and> elapsedTime (\<lambda>s. if s = ''2018-10-01T10:00:00Z'' then Some (0::nat)
                     else if s = ''2018-10-01T12:00:00Z'' then Some 7200 else None)
      (\<lambda>m1 m2. ''2 hours'') ''Duration: '' (Some ''not-a-date'') (Some ''also-not'') = []"
  using C8_elapsedTime [of
      "\<lambda>s. if s = ''2018-10-01T10:00:00Z'' then Some (0::nat)
           else if s = ''2018-10-01T12:00:00Z'' then Some 7200 else None"
      "\<lambda>m1 m2. ''2 hours''" "'' Duration: ''"
      "Some ''2018-10-01T10:00:00Z''" "Some ''2018-10-01T12:00:00Z''"]
    C8_elapsedTime [of
      "\<lambda>s. if s = ''2018-10-01T10:00:00Z'' then Some (0::nat)
           else if s = ''2018-10-01T12:00:00Z'' then Some 7200 else None"
      "\<lambda>m1 m2. ''2 hours''" "'' Duration: ''"
      "Some ''2018-10-01T10:00:00Z''" None]
  by simp

end
